theory Spec2Isabelle
  imports Main "HOL-Library.Word"
begin

section \<open>The caption worker of instabot (src/caption/main.go)\<close>

text \<open>
  The worker subscribes to a redis channel, decodes every message as a
  \<open>PhotoMetadata\<close> record and, when the record has no caption, fetches the photo, posts
  it to the captioning API, stores the caption in a redis hash and publishes the record
  again on the same channel.

  The code of the repository is embedded as it is written. What it calls outside the
  repository (encoding/json, net/url, net/http, go-redis, viper) is not part of the
  program: each such call is a field of the record \<open>env\<close>, a function from the call's
  arguments to the values the call hands back, so that every statement below holds for
  whatever these libraries answer. Every call that leaves the program is written to a
  trace of events, in the order of the source. A Go pair \<open>(pointer, err)\<close> is a pair of
  options, since the source tests \<open>err\<close> and dereferences the pointer independently of
  each other; dereferencing \<open>nil\<close> is the outcome \<open>Panicked\<close>.
\<close>

subsection \<open>Data\<close>

text \<open>A non-nil Go \<open>error\<close>, by its message; \<open>None\<close> is \<open>nil\<close>.\<close>

type_synonym error = string

text \<open>\<open>workerConfig\<close>, lines 30-41, its two anonymous structs flattened.\<close>

record workerConfig =
  captionApi_url :: string
  captionApi_key :: string
  redis_channel :: string
  redis_addr :: string
  redis_passwd :: string
  redis_db :: int

text \<open>\<open>redis.Options\<close> as \<open>NewWorker\<close> fills it, lines 72-76.\<close>

record Options =
  Addr :: string
  Password :: string
  DB :: int

text \<open>\<open>Worker\<close>, lines 25-28. The client is known by the options it was made from. Both
  fields are pointers that \<open>NewWorker\<close> sets before it calls any method of the worker, so
  they are never \<open>nil\<close> where a method reads them.\<close>

record Worker =
  redis :: Options
  config :: workerConfig

text \<open>\<open>PhotoMetadata\<close>, lines 43-50; \<open>ChatId\<close> is an \<open>int64\<close>.\<close>

record PhotoMetadata =
  ChatId :: "64 word"
  PhotoUrl :: string
  Caption :: string
  StyledUrl :: string
  Published :: bool
  PhotoId :: string

text \<open>\<open>CaptionApiResponse\<close>, lines 52-56.\<close>

record CaptionApiResponse =
  Output :: string
  Job_id :: int
  Err :: string

text \<open>The zero values that \<open>var metadata PhotoMetadata\<close> and
  \<open>var captionResponse CaptionApiResponse\<close> declare.\<close>

definition zero_PhotoMetadata :: PhotoMetadata where
  "zero_PhotoMetadata =
     \<lparr>ChatId = 0, PhotoUrl = [], Caption = [], StyledUrl = [], Published = False, PhotoId = []\<rparr>"

definition zero_CaptionApiResponse :: CaptionApiResponse where
  "zero_CaptionApiResponse = \<lparr>Output = [], Job_id = 0, Err = []\<rparr>"

text \<open>\<open>redis.Message\<close>.\<close>

record Message =
  Channel :: string
  Pattern :: string
  Payload :: string

text \<open>\<open>url.URL\<close>, the fields the program can see.\<close>

record URL =
  Scheme :: string
  Host :: string
  Path :: string

text \<open>An \<open>io.ReadCloser\<close>: the bytes it yields, and the error that ends the reading when
  that is not the end of the data.\<close>

record ReadCloser =
  content :: string
  read_error :: "error option"

text \<open>\<open>http.Response\<close>.\<close>

record Response =
  StatusCode :: int
  Body :: ReadCloser

text \<open>One file part of a multipart form, and \<open>http.Request\<close> with the form as its body.\<close>

record FormFile =
  fieldname :: string
  filename :: string
  filedata :: string

record Request =
  Method :: string
  RequestURL :: string
  Header :: "(string \<times> string) list"
  Form :: "FormFile list"

subsection \<open>Log lines and events\<close>

text \<open>One constructor for each \<open>log.Printf\<close> and \<open>log.Fatal\<close> of the source, with the
  arguments of the call.\<close>

datatype log_entry =
    FatalNoApiKey
  | ErrorPing error
  | DebugPong string
  | ErrorSubscribe string error
  | DebugSubscribed string string
  | DebugGotMessage string Message
  | ErrorDecodeJSON string
  | DebugGotMetadata PhotoMetadata
  | ErrorCaptionApi error
  | ErrorSetCaption string error
  | ErrorEncodeJSON error
  | ErrorPublish string error
  | ErrorFormField error
  | ErrorWriteImage error
  | ErrorCreateRequest error
  | ErrorRequest error
  | ErrorReadResponse error
  | ErrorIncorrectUrl string
  | ErrorGetPhoto string

datatype event =
    Log log_entry
  | HttpGet string
  | HttpDo Request
  | RedisPing
  | RedisSubscribe string
  | RedisReceiveTimeout nat
  | RedisHSet string string string
  | RedisPublish string string
  | Go Message

text \<open>How a call ends: it returns a value, or the goroutine panics (which, with no
  \<open>recover\<close> anywhere in the program, ends the whole process).\<close>

datatype 'a outcome = Returned 'a | Panicked

subsection \<open>The world outside the repository\<close>

record env =
  viper_GetString :: "string \<Rightarrow> string option"
  viper_GetInt :: "string \<Rightarrow> int option"
  json_Unmarshal :: "string \<Rightarrow> PhotoMetadata \<Rightarrow> PhotoMetadata \<times> error option"
  json_Marshal :: "PhotoMetadata \<Rightarrow> string \<times> error option"
  json_Decode :: "ReadCloser \<Rightarrow> CaptionApiResponse \<Rightarrow> CaptionApiResponse \<times> error option"
  url_Parse :: "string \<Rightarrow> URL option \<times> error option"
  http_Get :: "string \<Rightarrow> Response option \<times> error option"
  http_NewRequest :: "string \<Rightarrow> string \<Rightarrow> error option"
  client_Do :: "Request \<Rightarrow> Response option \<times> error option"
  multipart_boundary :: string
  redis_Ping :: "string \<times> error option"
  redis_ReceiveTimeout :: "string \<times> error option"
  redis_HSet :: "string \<Rightarrow> string \<Rightarrow> string \<Rightarrow> error option"
  redis_Publish :: "string \<Rightarrow> string \<Rightarrow> error option"

text \<open>
  \<^item> \<open>viper_GetString\<close>, \<open>viper_GetInt\<close>: the value of an environment variable, \<open>None\<close>
    when it is not set (the default of \<open>viper.SetDefault\<close> then applies).
  \<^item> \<open>json_Unmarshal payload v\<close>: what \<open>json.Unmarshal\<close> leaves in the record that held
    \<open>v\<close>, and its error. \<open>json_Decode\<close> likewise for the decoder on a response body.
  \<^item> \<open>http_NewRequest method url\<close>: the error of \<open>http.NewRequest\<close>; the request is
    \<open>nil\<close> exactly when there is one.
  \<^item> \<open>multipart_boundary\<close>: the boundary \<open>multipart.NewWriter\<close> draws at random.
\<close>

subsection \<open>Configuration: \<open>config\<close>, lines 87-106\<close>

definition envWorkerRedisAddr :: string where "envWorkerRedisAddr = ''WORKER_REDIS_ADDR''"
definition envWorkerRedisDb :: string where "envWorkerRedisDb = ''WORKER_REDIS_DB''"
definition envWorkerRedisPasswd :: string where "envWorkerRedisPasswd = ''WORKER_REDIS_PASSWD''"
definition envWorkerRedisChannel :: string where "envWorkerRedisChannel = ''WORKER_REDIS_CHANNEL''"
definition envWorkerCaptionApiUrl :: string where "envWorkerCaptionApiUrl = ''WORKER_CAPTION_URL''"
definition envWorkerCaptionApiKey :: string where "envWorkerCaptionApiKey = ''WORKER_CAPTION_KEY''"

definition GetString :: "env \<Rightarrow> string \<Rightarrow> string \<Rightarrow> string" where
  "GetString e k dflt = (case viper_GetString e k of Some v \<Rightarrow> v | None \<Rightarrow> dflt)"

definition GetInt :: "env \<Rightarrow> string \<Rightarrow> int \<Rightarrow> int" where
  "GetInt e k dflt = (case viper_GetInt e k of Some v \<Rightarrow> v | None \<Rightarrow> dflt)"

text \<open>The function \<open>config\<close> of the source is \<open>config_of\<close> here, since \<open>config\<close> is
  the field of \<open>Worker\<close>. No default is set for the API key: \<open>viper.GetString\<close> gives
  the empty string.\<close>

definition config_of :: "env \<Rightarrow> workerConfig" where
  "config_of e =
     \<lparr>captionApi_url = GetString e envWorkerCaptionApiUrl ''https://api.deepai.org/api/neuraltalk'',
      captionApi_key = GetString e envWorkerCaptionApiKey [],
      redis_channel = GetString e envWorkerRedisChannel ''queue'',
      redis_addr = GetString e envWorkerRedisAddr ''localhost:6379'',
      redis_passwd = GetString e envWorkerRedisPasswd [],
      redis_db = GetInt e envWorkerRedisDb 0\<rparr>"

subsection \<open>\<open>getPhoto\<close>, lines 241-255\<close>

text \<open>\<open>parsed.Host\<close> is read before \<open>err\<close> is looked at, so a \<open>nil\<close> URL panics there.
  The check only logs: \<open>http.Get\<close> is called whatever it found, and its response, \<open>nil\<close>
  or not, is returned.\<close>

definition getPhoto :: "env \<Rightarrow> string \<Rightarrow> Response option outcome \<times> event list" where
  "getPhoto e uri =
     (case url_Parse e uri of (parsed, err) \<Rightarrow>
        (case parsed of
           None \<Rightarrow> (Panicked, [])
         | Some u \<Rightarrow>
             (let t1 = (if Host u = [] \<or> err \<noteq> None then [Log (ErrorIncorrectUrl uri)] else [])
              in case http_Get e uri of (resp, err2) \<Rightarrow>
                   (Returned resp,
                    t1 @ [HttpGet uri] @
                    (case err2 of Some _ \<Rightarrow> [Log (ErrorGetPhoto uri)] | None \<Rightarrow> [])))))"

subsection \<open>\<open>process\<close>, lines 180-238\<close>

text \<open>
  The multipart writer writes into a \<open>bytes.Buffer\<close>, whose \<open>Write\<close> never fails: the
  form file is always created (the branch of line 189 is dead), and \<open>io.Copy\<close> fails
  only when reading the photo's body does. The bytes read until then are in the form.
  The places where the source dereferences a pointer that may be \<open>nil\<close>:
  \<open>resp.Body\<close> (line 193), \<open>req.Header\<close> (line 208) and \<open>res.Body\<close> (line 221).
\<close>

definition FormDataContentType :: "env \<Rightarrow> string" where
  "FormDataContentType e = ''multipart/form-data; boundary='' @ multipart_boundary e"

text \<open>The request that lines 185-209 build around the bytes of the photo.\<close>

definition captionRequest :: "env \<Rightarrow> Worker \<Rightarrow> string \<Rightarrow> Request" where
  "captionRequest e worker bytes =
     \<lparr>Method = ''POST'',
      RequestURL = captionApi_url (config worker),
      Header = [(''Content-Type'', FormDataContentType e),
                (''Api-Key'', captionApi_key (config worker))],
      Form = [\<lparr>fieldname = ''image'', filename = ''file.jpg'', filedata = bytes\<rparr>]\<rparr>"

definition process :: "env \<Rightarrow> Worker \<Rightarrow> PhotoMetadata \<Rightarrow> (string \<times> error option) outcome \<times> event list" where
  "process e worker metadata =
     (case getPhoto e (PhotoUrl metadata) of
        (Panicked, t1) \<Rightarrow> (Panicked, t1)
      | (Returned resp, t1) \<Rightarrow>
          (case resp of
             None \<Rightarrow> (Panicked, t1)
           | Some r \<Rightarrow>
               (let t2 = t1 @ (case read_error (Body r) of
                                 Some er \<Rightarrow> [Log (ErrorWriteImage er)] | None \<Rightarrow> [])
                in case http_NewRequest e ''POST'' (captionApi_url (config worker)) of
                     Some er \<Rightarrow> (Panicked, t2 @ [Log (ErrorCreateRequest er)])
                   | None \<Rightarrow>
                       (let req = captionRequest e worker (content (Body r))
                        in case client_Do e req of (res, err) \<Rightarrow>
                             (let t3 = t2 @ [HttpDo req] @
                                       (case err of Some er \<Rightarrow> [Log (ErrorRequest er)] | None \<Rightarrow> [])
                              in case res of
                                   None \<Rightarrow> (Panicked, t3)
                                 | Some rs \<Rightarrow>
                                     (case json_Decode e (Body rs) zero_CaptionApiResponse of
                                        (captionResponse, derr) \<Rightarrow>
                                          (let t4 = t3 @ (case derr of
                                                            Some er \<Rightarrow> [Log (ErrorReadResponse er)]
                                                          | None \<Rightarrow> []);
                                               captionErr =
                                                 (if length (Err captionResponse) \<noteq> 0
                                                  then Some (Err captionResponse) else None)
                                           in (Returned (Output captionResponse, captionErr), t4))))))))"

subsection \<open>\<open>handleRedis\<close>, lines 135-178\<close>

text \<open>A decoding error is logged and the function goes on with what \<open>json.Unmarshal\<close>
  left in \<open>metadata\<close>. Nothing but the emptiness of the caption decides whether
  \<open>process\<close> is called. After a caption has come back, the errors of \<open>HSet\<close>,
  \<open>json.Marshal\<close> and \<open>Publish\<close> are logged and nothing else.\<close>

definition handleRedis :: "env \<Rightarrow> Worker \<Rightarrow> Message \<Rightarrow> unit outcome \<times> event list" where
  "handleRedis e worker message =
     (case json_Unmarshal e (Payload message) zero_PhotoMetadata of (metadata, err) \<Rightarrow>
        (let t1 = [Log (DebugGotMessage (redis_channel (config worker)) message)] @
                  (case err of Some _ \<Rightarrow> [Log (ErrorDecodeJSON (Payload message))] | None \<Rightarrow> []) @
                  [Log (DebugGotMetadata metadata)]
         in if length (Caption metadata) = 0 then
              (case process e worker metadata of
                 (Panicked, tp) \<Rightarrow> (Panicked, t1 @ tp)
               | (Returned (caption, perr), tp) \<Rightarrow>
                   (case perr of
                      Some er \<Rightarrow> (Returned (), t1 @ tp @ [Log (ErrorCaptionApi er)])
                    | None \<Rightarrow>
                        (let metadata' = metadata\<lparr>Caption := caption\<rparr>;
                             t2 = t1 @ tp @ [RedisHSet (PhotoId metadata') ''caption'' caption] @
                                  (case redis_HSet e (PhotoId metadata') ''caption'' caption of
                                     Some er \<Rightarrow> [Log (ErrorSetCaption (PhotoId metadata') er)]
                                   | None \<Rightarrow> [])
                         in case json_Marshal e metadata' of (meta, merr) \<Rightarrow>
                              (let t3 = t2 @ (case merr of
                                                Some er \<Rightarrow> [Log (ErrorEncodeJSON er)] | None \<Rightarrow> []) @
                                        [RedisPublish (redis_channel (config worker)) meta] @
                                        (case redis_Publish e (redis_channel (config worker)) meta of
                                           Some er \<Rightarrow> [Log (ErrorPublish (redis_channel (config worker)) er)]
                                         | None \<Rightarrow> [])
                               in (Returned (), t3)))))
            else (Returned (), t1)))"

subsection \<open>\<open>setupRedis\<close>, lines 108-133\<close>

text \<open>The channel \<open>ch\<close> of the subscription is the sequence of what its receives give:
  \<open>ch i\<close> is the message of the \<open>i\<close>-th receive, or \<open>None\<close> when the channel is closed
  by then. The loop \<open>for message := range ch\<close> starts one goroutine for each message
  (the event \<open>Go message\<close>; what the goroutine does is \<open>handleRedis\<close> on that message)
  and ends when the channel is closed: on a channel that stays open it never ends, which
  is the value \<open>None\<close>.\<close>

type_synonym chan = "nat \<Rightarrow> Message option"

partial_function (option) range_ch :: "chan \<Rightarrow> nat \<Rightarrow> event list \<Rightarrow> event list option" where
  "range_ch ch i t =
     (case ch i of
        None \<Rightarrow> Some t
      | Some message \<Rightarrow> range_ch ch (Suc i) (t @ [Go message]))"

declare range_ch.simps [code]

definition setupRedis :: "env \<Rightarrow> Worker \<Rightarrow> chan \<Rightarrow> event list option" where
  "setupRedis e worker ch =
     (let channel = redis_channel (config worker);
          t1 = [RedisPing] @
               (case redis_Ping e of (pong, err) \<Rightarrow>
                  (case err of Some er \<Rightarrow> [Log (ErrorPing er)] | None \<Rightarrow> [Log (DebugPong pong)]));
          t2 = t1 @ [RedisSubscribe channel, RedisReceiveTimeout 10] @
               (case redis_ReceiveTimeout e of (subscr, err) \<Rightarrow>
                  (case err of Some er \<Rightarrow> [Log (ErrorSubscribe channel er)] | None \<Rightarrow> []) @
                  [Log (DebugSubscribed channel subscr)])
      in range_ch ch 0 t2)"

subsection \<open>\<open>NewWorker\<close>, \<open>Start\<close> and \<open>main\<close>, lines 58-85\<close>

text \<open>\<open>log.Fatal\<close> prints and calls \<open>os.Exit(1)\<close>.\<close>

datatype 'a startup = Started 'a | Exited int

definition NewWorker :: "env \<Rightarrow> chan \<Rightarrow> (Worker startup \<times> event list) option" where
  "NewWorker e ch =
     (let cfg = config_of e
      in if length (captionApi_key cfg) = 0 then Some (Exited 1, [Log FatalNoApiKey])
         else
           (let worker = \<lparr>redis = \<lparr>Addr = redis_addr cfg, Password = redis_passwd cfg,
                                   DB = redis_db cfg\<rparr>,
                          config = cfg\<rparr>
            in case setupRedis e worker ch of
                 None \<Rightarrow> None
               | Some t \<Rightarrow> Some (Started worker, t)))"

text \<open>The body of \<open>Start\<close> is empty.\<close>

definition Start :: "Worker \<Rightarrow> unit outcome \<times> event list" where
  "Start worker = (Returned (), [])"

definition main :: "env \<Rightarrow> chan \<Rightarrow> (unit startup \<times> event list) option" where
  "main e ch =
     (case NewWorker e ch of
        None \<Rightarrow> None
      | Some (Exited n, t) \<Rightarrow> Some (Exited n, t)
      | Some (Started worker, t) \<Rightarrow>
          (case Start worker of (_, ts) \<Rightarrow> Some (Started (), t @ ts)))"

text \<open>The messages of the first \<open>n\<close> receives from position \<open>i\<close> on.\<close>

fun received :: "chan \<Rightarrow> nat \<Rightarrow> nat \<Rightarrow> Message list" where
  "received ch i 0 = []"
| "received ch i (Suc n) =
     (case ch i of None \<Rightarrow> [] | Some message \<Rightarrow> message # received ch (Suc i) n)"

subsection \<open>Kinds of events\<close>

fun is_Go :: "event \<Rightarrow> bool" where
  "is_Go (Go _) = True"
| "is_Go _ = False"

fun is_Http :: "event \<Rightarrow> bool" where
  "is_Http (HttpGet _) = True"
| "is_Http (HttpDo _) = True"
| "is_Http _ = False"

fun is_HSet :: "event \<Rightarrow> bool" where
  "is_HSet (RedisHSet _ _ _) = True"
| "is_HSet _ = False"

fun is_Publish :: "event \<Rightarrow> bool" where
  "is_Publish (RedisPublish _ _) = True"
| "is_Publish _ = False"

subsection \<open>Concrete runs\<close>

text \<open>
  The inputs at which the statements below are evaluated. \<open>env_A\<close> answers as the
  libraries do in the run of the happy path: the payload \<open>payload_A\<close> decodes to a photo
  without caption, \<open>payload_B\<close> to the same photo with its caption, \<open>payload_N\<close> to
  a photo whose URL is \<open>not-a-url\<close>, and anything else is not JSON and leaves
  the record as it was; a URL without scheme parses to a URL with an empty host and
  \<open>http.Get\<close> refuses it (unsupported protocol scheme); the captioning API answers with
  a caption. The payloads are written without the quotes of JSON.
\<close>

definition worker0 :: Worker where
  "worker0 =
     \<lparr>redis = \<lparr>Addr = ''localhost:6379'', Password = [], DB = 0\<rparr>,
      config = \<lparr>captionApi_url = ''https://api.deepai.org/api/neuraltalk'',
                captionApi_key = ''secret'',
                redis_channel = ''queue'',
                redis_addr = ''localhost:6379'',
                redis_passwd = [],
                redis_db = 0\<rparr>\<rparr>"

definition photo_A :: PhotoMetadata where
  "photo_A = \<lparr>ChatId = 0, PhotoUrl = ''https://img.example/1.jpg'', Caption = [],
              StyledUrl = [], Published = False, PhotoId = ''p1''\<rparr>"

definition photo_B :: PhotoMetadata where
  "photo_B = \<lparr>ChatId = 0, PhotoUrl = ''https://img.example/1.jpg'',
              Caption = ''a dog running'', StyledUrl = [], Published = False,
              PhotoId = ''p1''\<rparr>"

definition photo_N :: PhotoMetadata where
  "photo_N = \<lparr>ChatId = 0, PhotoUrl = ''not-a-url'', Caption = [],
              StyledUrl = [], Published = False, PhotoId = ''p2''\<rparr>"

definition payload_A :: string where
  "payload_A = ''{photo_id:p1,photo_url:https://img.example/1.jpg,caption:}''"

definition payload_B :: string where
  "payload_B = ''{photo_id:p1,photo_url:https://img.example/1.jpg,caption:a dog running}''"

definition payload_N :: string where
  "payload_N = ''{photo_id:p2,photo_url:not-a-url,caption:}''"

definition message_A :: Message where
  "message_A = \<lparr>Channel = ''queue'', Pattern = [], Payload = payload_A\<rparr>"

definition message_B :: Message where
  "message_B = \<lparr>Channel = ''queue'', Pattern = [], Payload = payload_B\<rparr>"

definition message_N :: Message where
  "message_N = \<lparr>Channel = ''queue'', Pattern = [], Payload = payload_N\<rparr>"

definition message_bad :: Message where
  "message_bad = \<lparr>Channel = ''queue'', Pattern = [], Payload = ''not json''\<rparr>"

definition jpeg :: Response where
  "jpeg = \<lparr>StatusCode = 200, Body = \<lparr>content = ''JFIF'', read_error = None\<rparr>\<rparr>"

definition api_ok :: Response where
  "api_ok = \<lparr>StatusCode = 200,
             Body = \<lparr>content = ''{Output:a dog running,Err:}'', read_error = None\<rparr>\<rparr>"

definition api_err :: Response where
  "api_err = \<lparr>StatusCode = 200,
              Body = \<lparr>content = ''{Output:a cat,Err:invalid image}'', read_error = None\<rparr>\<rparr>"

definition env_A :: env where
  "env_A =
     \<lparr>viper_GetString = (\<lambda>k. if k = envWorkerCaptionApiKey then Some ''secret'' else None),
      viper_GetInt = (\<lambda>k. None),
      json_Unmarshal = (\<lambda>payload v.
         if payload = payload_A then (photo_A, None)
         else if payload = payload_B then (photo_B, None)
         else if payload = payload_N then (photo_N, None)
         else (v, Some ''invalid character'')),
      json_Marshal = (\<lambda>m.
         (''{photo_id:'' @ PhotoId m @ '',photo_url:'' @ PhotoUrl m @ '',caption:'' @ Caption m @ ''}'',
          None)),
      json_Decode = (\<lambda>body v.
         if content body = content (Body api_ok)
         then (\<lparr>Output = ''a dog running'', Job_id = 1, Err = []\<rparr>, None)
         else if content body = content (Body api_err)
         then (\<lparr>Output = ''a cat'', Job_id = 0, Err = ''invalid image''\<rparr>, None)
         else (v, Some ''unexpected end of JSON input'')),
      url_Parse = (\<lambda>uri.
         if uri = ''https://img.example/1.jpg''
         then (Some \<lparr>Scheme = ''https'', Host = ''img.example'', Path = ''/1.jpg''\<rparr>, None)
         else (Some \<lparr>Scheme = [], Host = [], Path = uri\<rparr>, None)),
      http_Get = (\<lambda>uri.
         if uri = ''https://img.example/1.jpg'' then (Some jpeg, None)
         else (None, Some ''unsupported protocol scheme'')),
      http_NewRequest = (\<lambda>method uri. None),
      client_Do = (\<lambda>req. (Some api_ok, None)),
      multipart_boundary = ''b0'',
      redis_Ping = (''PONG'', None),
      redis_ReceiveTimeout = (''subscribe: queue'', None),
      redis_HSet = (\<lambda>k f v. None),
      redis_Publish = (\<lambda>c m. None)\<rparr>"

text \<open>The captioning API answers with an application error; the POST fails in
  transport; the keyed store refuses the write.\<close>

definition env_C :: env where
  "env_C = env_A\<lparr>client_Do := (\<lambda>req. (Some api_err, None))\<rparr>"

definition env_down :: env where
  "env_down = env_A\<lparr>client_Do := (\<lambda>req. (None, Some ''dial tcp: connection refused''))\<rparr>"

definition env_nostore :: env where
  "env_nostore = env_A\<lparr>redis_HSet := (\<lambda>k f v. Some ''READONLY'')\<rparr>"

text \<open>What \<open>process\<close> sends on the happy path.\<close>

definition request_A :: Request where
  "request_A =
     \<lparr>Method = ''POST'',
      RequestURL = ''https://api.deepai.org/api/neuraltalk'',
      Header = [(''Content-Type'', ''multipart/form-data; boundary=b0''), (''Api-Key'', ''secret'')],
      Form = [\<lparr>fieldname = ''image'', filename = ''file.jpg'', filedata = ''JFIF''\<rparr>]\<rparr>"

text \<open>A channel that delivers two messages and is closed, and one that is never closed.\<close>

definition chan_two :: chan where
  "chan_two = (\<lambda>i. if i = 0 then Some message_A else if i = 1 then Some message_B else None)"

definition chan_open :: chan where
  "chan_open = (\<lambda>i. Some message_A)"

section \<open>Properties\<close>

subsection \<open>What \<open>process\<close> and \<open>getPhoto\<close> can do\<close>

text \<open>Neither function touches redis: their events are log lines and HTTP requests.\<close>

lemma getPhoto_trace:
  "getPhoto e uri = (r, t) \<Longrightarrow> filter is_HSet t = [] \<and> filter is_Publish t = []"
  by (auto simp: getPhoto_def split: prod.splits option.splits if_splits)

lemma process_trace:
  "process e worker metadata = (r, t) \<Longrightarrow> filter is_HSet t = [] \<and> filter is_Publish t = []"
  unfolding process_def
  by (auto simp: Let_def dest!: getPhoto_trace
           split: prod.splits option.splits outcome.splits if_splits)

text \<open>A call of \<open>process\<close> cannot go unseen: it panics, or the GET of the photo is in
  its trace.\<close>

lemma process_observable:
  "process e worker metadata = (r, t) \<Longrightarrow> r = Panicked \<or> HttpGet (PhotoUrl metadata) \<in> set t"
  unfolding process_def getPhoto_def
  by (auto simp: Let_def split: prod.splits option.splits outcome.splits if_splits)

text \<open>On a URL with an empty host \<open>getPhoto\<close> logs, still sends the GET, and returns
  what the GET gave.\<close>

lemma getPhoto_no_host_returns:
  assumes "url_Parse e uri = (Some u, perr)" and "Host u = []" and "http_Get e uri = (resp, gerr)"
  shows "getPhoto e uri =
           (Returned resp,
            [Log (ErrorIncorrectUrl uri), HttpGet uri] @
            (case gerr of Some _ \<Rightarrow> [Log (ErrorGetPhoto uri)] | None \<Rightarrow> []))"
  using assms by (simp add: getPhoto_def)

text \<open>The three \<open>nil\<close> pointers of \<open>process\<close>: the photo's response, the request, the
  API's response.\<close>

lemma process_nil_photo_panics:
  assumes "getPhoto e (PhotoUrl metadata) = (Returned None, t)"
  shows "process e worker metadata = (Panicked, t)"
  using assms by (simp add: process_def)

lemma process_nil_request_panics:
  assumes "getPhoto e (PhotoUrl metadata) = (Returned (Some r), t1)"
      and "http_NewRequest e ''POST'' (captionApi_url (config worker)) = Some er"
  shows "fst (process e worker metadata) = Panicked"
  using assms by (simp add: process_def Let_def)

lemma process_nil_response_panics:
  assumes "getPhoto e (PhotoUrl metadata) = (Returned (Some r), t1)"
      and "http_NewRequest e ''POST'' (captionApi_url (config worker)) = None"
      and "client_Do e (captionRequest e worker (content (Body r))) = (None, err)"
  shows "fst (process e worker metadata) = Panicked"
  using assms by (simp add: process_def Let_def)

text \<open>A panic of \<open>process\<close> is a panic of the handler: nothing recovers it.\<close>

lemma handleRedis_process_panics:
  assumes "json_Unmarshal e (Payload message) zero_PhotoMetadata = (metadata, err)"
      and "Caption metadata = []"
      and "fst (process e worker metadata) = Panicked"
  shows "fst (handleRedis e worker message) = Panicked"
  using assms by (cases "process e worker metadata") (simp add: handleRedis_def Let_def)

text \<open>A decoding error changes nothing but one log line: the handler goes on with the
  record as \<open>json.Unmarshal\<close> left it.\<close>

lemma handleRedis_decode_error_goes_on:
  assumes "json_Unmarshal e (Payload message) zero_PhotoMetadata = (metadata, Some er)"
      and "Caption metadata = []"
      and "process e worker metadata = (r, tp)"
  shows "\<exists>t. snd (handleRedis e worker message) =
           [Log (DebugGotMessage (redis_channel (config worker)) message),
            Log (ErrorDecodeJSON (Payload message)),
            Log (DebugGotMetadata metadata)] @ tp @ t"
  using assms
  by (cases r) (auto simp: handleRedis_def Let_def split: option.splits prod.splits)

subsection \<open>The concrete runs, evaluated\<close>

lemma getPhoto_A: "getPhoto env_A (PhotoUrl photo_A) = (Returned (Some jpeg), [HttpGet ''https://img.example/1.jpg''])"
  by (simp add: getPhoto_def env_A_def photo_A_def)

lemma captionRequest_A: "captionRequest env_A worker0 (content (Body jpeg)) = request_A"
  by (simp add: captionRequest_def FormDataContentType_def env_A_def worker0_def jpeg_def request_A_def)

lemma jpeg_read: "read_error (Body jpeg) = None"
  by (simp add: jpeg_def)

lemma NewRequest_A: "http_NewRequest env_A ''POST'' (captionApi_url (config worker0)) = None"
  by (simp add: env_A_def)

lemma Decode_ok:
  "json_Decode env_A (Body api_ok) zero_CaptionApiResponse =
     (\<lparr>Output = ''a dog running'', Job_id = 1, Err = []\<rparr>, None)"
  by (simp add: env_A_def)

lemma Decode_err:
  "json_Decode env_A (Body api_err) zero_CaptionApiResponse =
     (\<lparr>Output = ''a cat'', Job_id = 0, Err = ''invalid image''\<rparr>, None)"
  by (simp add: env_A_def api_ok_def api_err_def)

lemma process_A:
  "process env_A worker0 photo_A =
     (Returned (''a dog running'', None), [HttpGet ''https://img.example/1.jpg'', HttpDo request_A])"
proof -
  have d: "client_Do env_A request_A = (Some api_ok, None)"
    by (simp add: env_A_def)
  show ?thesis
    by (simp add: process_def getPhoto_A captionRequest_A NewRequest_A jpeg_read d Decode_ok)
qed

lemma process_C:
  "process env_C worker0 photo_A =
     (Returned (''a cat'', Some ''invalid image''),
      [HttpGet ''https://img.example/1.jpg'', HttpDo request_A])"
  by (simp add: process_def getPhoto_def captionRequest_def FormDataContentType_def
                env_C_def env_A_def photo_A_def worker0_def jpeg_def api_ok_def api_err_def
                request_A_def zero_CaptionApiResponse_def)

lemma process_nostore:
  "process env_nostore worker0 photo_A =
     (Returned (''a dog running'', None), [HttpGet ''https://img.example/1.jpg'', HttpDo request_A])"
  by (simp add: process_def getPhoto_def captionRequest_def FormDataContentType_def
                env_nostore_def env_A_def photo_A_def worker0_def jpeg_def api_ok_def
                request_A_def zero_CaptionApiResponse_def)

lemma process_down:
  "process env_down worker0 photo_A =
     (Panicked,
      [HttpGet ''https://img.example/1.jpg'', HttpDo request_A,
       Log (ErrorRequest ''dial tcp: connection refused'')])"
  by (simp add: process_def getPhoto_def captionRequest_def FormDataContentType_def
                env_down_def env_A_def photo_A_def worker0_def jpeg_def request_A_def)

lemma getPhoto_N:
  "getPhoto env_A ''not-a-url'' =
     (Returned None,
      [Log (ErrorIncorrectUrl ''not-a-url''), HttpGet ''not-a-url'',
       Log (ErrorGetPhoto ''not-a-url'')])"
  by (simp add: getPhoto_def env_A_def)

lemma getPhoto_empty:
  "getPhoto env_A [] =
     (Returned None, [Log (ErrorIncorrectUrl []), HttpGet [], Log (ErrorGetPhoto [])])"
  by (simp add: getPhoto_def env_A_def)

lemma Unmarshal_A: "json_Unmarshal env_A (Payload message_A) zero_PhotoMetadata = (photo_A, None)"
  by (simp add: env_A_def message_A_def)

lemma Unmarshal_B: "json_Unmarshal env_A (Payload message_B) zero_PhotoMetadata = (photo_B, None)"
  by (simp add: env_A_def message_B_def payload_A_def payload_B_def)

lemma Unmarshal_N: "json_Unmarshal env_A (Payload message_N) zero_PhotoMetadata = (photo_N, None)"
  by (simp add: env_A_def message_N_def payload_A_def payload_B_def payload_N_def)

lemma Unmarshal_bad:
  "json_Unmarshal env_A (Payload message_bad) zero_PhotoMetadata =
     (zero_PhotoMetadata, Some ''invalid character'')"
  by (simp add: env_A_def message_bad_def payload_A_def payload_B_def payload_N_def)

subsection \<open>The gate on the caption\<close>

text \<open>
  Claim C1. For every inbound message whose decoded \<open>PhotoMetadata\<close> has a non-empty
  caption, \<open>handleRedis\<close> performs no enrichment: it never calls \<open>process\<close>, never
  writes to the keyed store and never publishes to the channel.

  Whatever \<open>json.Unmarshal\<close> reports, when the record it leaves has a caption the
  handler returns after its log lines (the message, the decoding error if there was one,
  the record) and nothing else: no HTTP request, no \<open>HSet\<close>, no \<open>Publish\<close>. By
  \<open>process_observable\<close> a call of \<open>process\<close> would have panicked or left its GET in the
  trace.
\<close>

theorem handleRedis_captioned_does_nothing:
  assumes "json_Unmarshal e (Payload message) zero_PhotoMetadata = (metadata, err)"
      and "Caption metadata \<noteq> []"
  shows "handleRedis e worker message =
           (Returned (),
            [Log (DebugGotMessage (redis_channel (config worker)) message)] @
            (case err of Some _ \<Rightarrow> [Log (ErrorDecodeJSON (Payload message))] | None \<Rightarrow> []) @
            [Log (DebugGotMetadata metadata)])
         \<and> filter is_Http (snd (handleRedis e worker message)) = []
         \<and> filter is_HSet (snd (handleRedis e worker message)) = []
         \<and> filter is_Publish (snd (handleRedis e worker message)) = []"
  using assms by (simp add: handleRedis_def split: option.splits)

theorem handleRedis_captioned_does_nothing_witness:
  "handleRedis env_A worker0 message_B =
     (Returned (), [Log (DebugGotMessage ''queue'' message_B), Log (DebugGotMetadata photo_B)])
   \<and> filter is_Http (snd (handleRedis env_A worker0 message_B)) = []
   \<and> filter is_HSet (snd (handleRedis env_A worker0 message_B)) = []
   \<and> filter is_Publish (snd (handleRedis env_A worker0 message_B)) = []"
proof -
  have c: "Caption photo_B \<noteq> []"
    by (simp add: photo_B_def)
  show ?thesis
    using handleRedis_captioned_does_nothing [OF Unmarshal_B c, of worker0]
    by (simp add: worker0_def)
qed

subsection \<open>A payload that does not decode\<close>

text \<open>
  Claim C2. For every inbound message whose payload fails to decode as
  \<open>PhotoMetadata\<close>, \<open>handleRedis\<close> logs and drops the message: no enrichment is
  attempted, no keyed-store write occurs, and nothing is published for that message.

  The source logs the error and does not return (lines 142-144, against the \<open>return\<close>
  of line 154). On the payload \<open>not json\<close> the record stays at its zero value, its
  caption is empty, \<open>process\<close> is called on the empty URL, the GET is sent and fails,
  and \<open>resp.Body\<close> on the \<open>nil\<close> response panics.
\<close>

theorem handleRedis_undecodable_is_processed:
  "handleRedis env_A worker0 message_bad =
     (Panicked,
      [Log (DebugGotMessage ''queue'' message_bad),
       Log (ErrorDecodeJSON ''not json''),
       Log (DebugGotMetadata zero_PhotoMetadata),
       Log (ErrorIncorrectUrl []), HttpGet [], Log (ErrorGetPhoto [])])"
proof -
  have p: "process env_A worker0 zero_PhotoMetadata =
             (Panicked, [Log (ErrorIncorrectUrl []), HttpGet [], Log (ErrorGetPhoto [])])"
    using getPhoto_empty by (simp add: process_def zero_PhotoMetadata_def)
  have c: "Caption zero_PhotoMetadata = []"
    by (simp add: zero_PhotoMetadata_def)
  show ?thesis
    by (simp add: handleRedis_def Unmarshal_bad p c) (simp add: message_bad_def worker0_def)
qed

subsection \<open>A photo URL without a host\<close>

text \<open>
  Claim C3. For every URL string whose parse yields an empty host (e.g.
  \<open>not-a-url\<close>), the image fetch is treated as failed, logged, no image retrieved,
  and the pipeline never crashes: \<open>getPhoto\<close> and its caller \<open>process\<close> always return
  normally rather than faulting.

  \<open>getPhoto\<close> logs the URL and returns, but it returns the \<open>nil\<close> response of the GET
  it still sent, and \<open>process\<close> reads \<open>resp.Body\<close> of it: the goroutine panics, in
  \<open>process\<close> and so in the handler.
\<close>

theorem process_no_host_panics:
  "getPhoto env_A ''not-a-url'' =
     (Returned None,
      [Log (ErrorIncorrectUrl ''not-a-url''), HttpGet ''not-a-url'',
       Log (ErrorGetPhoto ''not-a-url'')])
   \<and> process env_A worker0 photo_N =
     (Panicked,
      [Log (ErrorIncorrectUrl ''not-a-url''), HttpGet ''not-a-url'',
       Log (ErrorGetPhoto ''not-a-url'')])
   \<and> fst (handleRedis env_A worker0 message_N) = Panicked"
proof -
  have u: "PhotoUrl photo_N = ''not-a-url''" and c: "Caption photo_N = []"
    by (simp_all add: photo_N_def)
  have p: "process env_A worker0 photo_N =
     (Panicked,
      [Log (ErrorIncorrectUrl ''not-a-url''), HttpGet ''not-a-url'',
       Log (ErrorGetPhoto ''not-a-url'')])"
    using getPhoto_N by (simp add: process_nil_photo_panics u)
  have h: "fst (handleRedis env_A worker0 message_N) = Panicked"
    using handleRedis_process_panics [OF Unmarshal_N c] p by simp
  show ?thesis
    using getPhoto_N p h by simp
qed

subsection \<open>What \<open>process\<close> returns\<close>

text \<open>
  Claim C4. For every captioning API response, if the \<open>Err\<close> field is non-empty then
  \<open>process\<close> returns that string as an application error and no caption is produced
  (the caption text in \<open>Output\<close> is not returned in this case, regardless of
  \<open>Output\<close>'s content); if \<open>Err\<close> is empty, \<open>process\<close> returns \<open>Output\<close> as the
  caption with no error.

  The last line of \<open>process\<close> is \<open>return captionResponse.Output, captionErr\<close>: the
  text of \<open>Output\<close> is returned in both cases, beside the error when \<open>Err\<close> is not
  empty. On the answer with \<open>Output\<close> \<open>a cat\<close> and \<open>Err\<close> \<open>invalid image\<close> the
  first component of the result is \<open>a cat\<close>.
\<close>

theorem process_withholds_Output_counterexample:
  "json_Decode env_C (Body api_err) zero_CaptionApiResponse =
     (\<lparr>Output = ''a cat'', Job_id = 0, Err = ''invalid image''\<rparr>, None)
   \<and> fst (process env_C worker0 photo_A) = Returned (''a cat'', Some ''invalid image'')"
  using Decode_err process_C by (simp add: env_C_def)

text \<open>
  Claim C4, amended. Once the photo is fetched, the request is made and the POST has
  brought a response, \<open>process\<close> returns normally, for whatever the decoder left in
  \<open>captionResponse\<close> (also when the decoder reported an error): its first result is
  \<open>Output\<close> in every case, and its second is the error with message \<open>Err\<close> when \<open>Err\<close>
  is not empty and \<open>nil\<close> when it is. The events are those of \<open>getPhoto\<close>, the POST and
  the log lines of the errors on the way.
\<close>

theorem process_returns_Output_and_Err:
  assumes "getPhoto e (PhotoUrl metadata) = (Returned (Some r), t1)"
      and "http_NewRequest e ''POST'' (captionApi_url (config worker)) = None"
      and "client_Do e (captionRequest e worker (content (Body r))) = (Some rs, err)"
      and "json_Decode e (Body rs) zero_CaptionApiResponse = (captionResponse, derr)"
  shows "process e worker metadata =
           (Returned (Output captionResponse,
                      if Err captionResponse = [] then None else Some (Err captionResponse)),
            t1 @
            (case read_error (Body r) of Some er \<Rightarrow> [Log (ErrorWriteImage er)] | None \<Rightarrow> []) @
            [HttpDo (captionRequest e worker (content (Body r)))] @
            (case err of Some er \<Rightarrow> [Log (ErrorRequest er)] | None \<Rightarrow> []) @
            (case derr of Some er \<Rightarrow> [Log (ErrorReadResponse er)] | None \<Rightarrow> []))"
  using assms by (simp add: process_def Let_def)

theorem process_returns_Output_and_Err_witness:
  "process env_A worker0 photo_A =
     (Returned (''a dog running'', None),
      [HttpGet ''https://img.example/1.jpg'', HttpDo request_A])
   \<and> process env_C worker0 photo_A =
     (Returned (''a cat'', Some ''invalid image''),
      [HttpGet ''https://img.example/1.jpg'', HttpDo request_A])"
proof -
  have d: "client_Do env_A (captionRequest env_A worker0 (content (Body jpeg))) = (Some api_ok, None)"
    by (simp add: env_A_def)
  have a: "process env_A worker0 photo_A =
     (Returned (''a dog running'', None),
      [HttpGet ''https://img.example/1.jpg'', HttpDo request_A])"
    using process_returns_Output_and_Err [OF getPhoto_A NewRequest_A d Decode_ok]
    by (simp add: captionRequest_A jpeg_read)
  have g': "getPhoto env_C (PhotoUrl photo_A) =
              (Returned (Some jpeg), [HttpGet ''https://img.example/1.jpg''])"
    by (simp add: getPhoto_def env_C_def env_A_def photo_A_def)
  have n': "http_NewRequest env_C ''POST'' (captionApi_url (config worker0)) = None"
    by (simp add: env_C_def env_A_def)
  have d': "client_Do env_C (captionRequest env_C worker0 (content (Body jpeg))) = (Some api_err, None)"
    by (simp add: env_C_def)
  have j': "json_Decode env_C (Body api_err) zero_CaptionApiResponse =
              (\<lparr>Output = ''a cat'', Job_id = 0, Err = ''invalid image''\<rparr>, None)"
    using Decode_err by (simp add: env_C_def)
  have r': "captionRequest env_C worker0 (content (Body jpeg)) = request_A"
    using captionRequest_A by (simp add: captionRequest_def FormDataContentType_def env_C_def)
  have b: "process env_C worker0 photo_A =
     (Returned (''a cat'', Some ''invalid image''),
      [HttpGet ''https://img.example/1.jpg'', HttpDo request_A])"
    using process_returns_Output_and_Err [OF g' n' d' j']
    by (simp add: r' jpeg_read)
  show ?thesis
    using a b by simp
qed

subsection \<open>An error of \<open>process\<close>\<close>

text \<open>
  Claim C5. For every \<open>PhotoMetadata\<close> with empty caption, if the CaptionService call
  (\<open>process\<close>) returns an error, \<open>handleRedis\<close> logs and aborts: no keyed-store write
  and no republish occur for that message.

  After the events of \<open>process\<close> there is the one log line of line 153, and the handler
  returns; no \<open>HSet\<close> and no \<open>Publish\<close> is anywhere in its trace.
\<close>

theorem handleRedis_aborts_on_process_error:
  assumes "json_Unmarshal e (Payload message) zero_PhotoMetadata = (metadata, err)"
      and "Caption metadata = []"
      and "process e worker metadata = (Returned (caption, Some er), tp)"
  shows "handleRedis e worker message =
           (Returned (),
            [Log (DebugGotMessage (redis_channel (config worker)) message)] @
            (case err of Some _ \<Rightarrow> [Log (ErrorDecodeJSON (Payload message))] | None \<Rightarrow> []) @
            [Log (DebugGotMetadata metadata)] @ tp @ [Log (ErrorCaptionApi er)])
         \<and> filter is_HSet (snd (handleRedis e worker message)) = []
         \<and> filter is_Publish (snd (handleRedis e worker message)) = []"
  using assms process_trace [OF assms(3)]
  by (simp add: handleRedis_def split: option.splits)

theorem handleRedis_aborts_on_process_error_witness:
  "handleRedis env_C worker0 message_A =
     (Returned (),
      [Log (DebugGotMessage ''queue'' message_A), Log (DebugGotMetadata photo_A),
       HttpGet ''https://img.example/1.jpg'', HttpDo request_A,
       Log (ErrorCaptionApi ''invalid image'')])
   \<and> filter is_HSet (snd (handleRedis env_C worker0 message_A)) = []
   \<and> filter is_Publish (snd (handleRedis env_C worker0 message_A)) = []"
proof -
  have u: "json_Unmarshal env_C (Payload message_A) zero_PhotoMetadata = (photo_A, None)"
    using Unmarshal_A by (simp add: env_C_def)
  have c: "Caption photo_A = []"
    by (simp add: photo_A_def)
  show ?thesis
    using handleRedis_aborts_on_process_error [OF u c process_C]
    by (simp add: worker0_def)
qed

subsection \<open>After a caption has come back\<close>

text \<open>
  Claim C6. For every \<open>PhotoMetadata\<close> with empty caption whose CaptionService call
  succeeds, a failure of the keyed-store write (\<open>HSet\<close> under key \<open>photoId\<close>, field
  \<open>caption\<close>) is logged but does not abort the remaining steps: the mutated record
  is still serialized and published to the channel.

  The whole run of the handler: the events of \<open>process\<close>, the \<open>HSet\<close> and the log line
  of its error, then \<open>json.Marshal\<close> of the record with the caption and the \<open>Publish\<close>
  of its bytes on the worker's channel, and the handler returns.
\<close>

theorem handleRedis_publishes_after_failed_HSet:
  assumes "json_Unmarshal e (Payload message) zero_PhotoMetadata = (metadata, err)"
      and "Caption metadata = []"
      and "process e worker metadata = (Returned (caption, None), tp)"
      and "redis_HSet e (PhotoId metadata) ''caption'' caption = Some er"
      and "json_Marshal e (metadata\<lparr>Caption := caption\<rparr>) = (meta, merr)"
  shows "handleRedis e worker message =
           (Returned (),
            [Log (DebugGotMessage (redis_channel (config worker)) message)] @
            (case err of Some _ \<Rightarrow> [Log (ErrorDecodeJSON (Payload message))] | None \<Rightarrow> []) @
            [Log (DebugGotMetadata metadata)] @ tp @
            [RedisHSet (PhotoId metadata) ''caption'' caption,
             Log (ErrorSetCaption (PhotoId metadata) er)] @
            (case merr of Some er' \<Rightarrow> [Log (ErrorEncodeJSON er')] | None \<Rightarrow> []) @
            [RedisPublish (redis_channel (config worker)) meta] @
            (case redis_Publish e (redis_channel (config worker)) meta of
               Some er' \<Rightarrow> [Log (ErrorPublish (redis_channel (config worker)) er')]
             | None \<Rightarrow> []))"
  using assms by (simp add: handleRedis_def Let_def)

theorem handleRedis_publishes_after_failed_HSet_witness:
  "handleRedis env_nostore worker0 message_A =
     (Returned (),
      [Log (DebugGotMessage ''queue'' message_A), Log (DebugGotMetadata photo_A),
       HttpGet ''https://img.example/1.jpg'', HttpDo request_A,
       RedisHSet ''p1'' ''caption'' ''a dog running'',
       Log (ErrorSetCaption ''p1'' ''READONLY''),
       RedisPublish ''queue''
         ''{photo_id:p1,photo_url:https://img.example/1.jpg,caption:a dog running}''])"
proof -
  have u: "json_Unmarshal env_nostore (Payload message_A) zero_PhotoMetadata = (photo_A, None)"
    using Unmarshal_A by (simp add: env_nostore_def)
  have c: "Caption photo_A = []"
    by (simp add: photo_A_def)
  have h: "redis_HSet env_nostore (PhotoId photo_A) ''caption'' ''a dog running'' = Some ''READONLY''"
    by (simp add: env_nostore_def)
  have m: "json_Marshal env_nostore (photo_A\<lparr>Caption := ''a dog running''\<rparr>) =
             (''{photo_id:p1,photo_url:https://img.example/1.jpg,caption:a dog running}'', None)"
    by (simp add: env_nostore_def env_A_def photo_A_def)
  have p: "redis_Publish env_nostore ''queue''
             ''{photo_id:p1,photo_url:https://img.example/1.jpg,caption:a dog running}'' = None"
    by (simp add: env_nostore_def env_A_def)
  have q: "redis_channel (config worker0) = ''queue''" and i: "PhotoId photo_A = ''p1''"
    by (simp_all add: worker0_def photo_A_def)
  show ?thesis
    using handleRedis_publishes_after_failed_HSet [OF u c process_nostore h m]
    by (simp add: q i p)
qed

text \<open>
  Claim C8. For every \<open>PhotoMetadata\<close> with empty caption whose enrichment succeeds
  with caption \<open>c\<close>, the keyed store receives field \<open>caption\<close> equal to \<open>c\<close> under key
  \<open>photoId\<close>, and the republished message carries caption \<open>c\<close> while every other
  field (\<open>chatId\<close>, \<open>photoUrl\<close>, \<open>styledUrl\<close>, \<open>published\<close>, \<open>photoId\<close>) is
  unchanged from the inbound record.

  The handler returns; the one \<open>HSet\<close> of its run writes \<open>c\<close> to the field \<open>caption\<close>
  of the key \<open>PhotoId\<close>, and its one \<open>Publish\<close> sends, on the worker's channel, what
  \<open>json.Marshal\<close> makes of the record whose caption is \<open>c\<close> and whose other five fields
  are those of the decoded record.
\<close>

theorem handleRedis_stores_and_republishes_caption:
  assumes "json_Unmarshal e (Payload message) zero_PhotoMetadata = (metadata, err)"
      and "Caption metadata = []"
      and "process e worker metadata = (Returned (c, None), tp)"
  shows "fst (handleRedis e worker message) = Returned ()
         \<and> filter is_HSet (snd (handleRedis e worker message)) =
             [RedisHSet (PhotoId metadata) ''caption'' c]
         \<and> filter is_Publish (snd (handleRedis e worker message)) =
             [RedisPublish (redis_channel (config worker))
                (fst (json_Marshal e
                   \<lparr>ChatId = ChatId metadata, PhotoUrl = PhotoUrl metadata, Caption = c,
                    StyledUrl = StyledUrl metadata, Published = Published metadata,
                    PhotoId = PhotoId metadata\<rparr>))]"
proof -
  have upd: "metadata\<lparr>Caption := c\<rparr> =
      \<lparr>ChatId = ChatId metadata, PhotoUrl = PhotoUrl metadata, Caption = c,
       StyledUrl = StyledUrl metadata, Published = Published metadata,
       PhotoId = PhotoId metadata\<rparr>"
    by simp
  show ?thesis
    using assms process_trace [OF assms(3)] unfolding upd [symmetric]
    by (simp add: handleRedis_def Let_def split: option.splits prod.splits)
qed

theorem handleRedis_stores_and_republishes_caption_witness:
  "fst (handleRedis env_A worker0 message_A) = Returned ()
   \<and> filter is_HSet (snd (handleRedis env_A worker0 message_A)) =
       [RedisHSet ''p1'' ''caption'' ''a dog running'']
   \<and> filter is_Publish (snd (handleRedis env_A worker0 message_A)) =
       [RedisPublish ''queue''
          ''{photo_id:p1,photo_url:https://img.example/1.jpg,caption:a dog running}'']"
proof -
  have c: "Caption photo_A = []"
    by (simp add: photo_A_def)
  have m: "fst (json_Marshal env_A
              \<lparr>ChatId = ChatId photo_A, PhotoUrl = PhotoUrl photo_A, Caption = ''a dog running'',
               StyledUrl = StyledUrl photo_A, Published = Published photo_A,
               PhotoId = PhotoId photo_A\<rparr>) =
           ''{photo_id:p1,photo_url:https://img.example/1.jpg,caption:a dog running}''"
    by (simp add: env_A_def photo_A_def)
  have q: "redis_channel (config worker0) = ''queue''" and i: "PhotoId photo_A = ''p1''"
    by (simp_all add: worker0_def photo_A_def)
  show ?thesis
    using handleRedis_stores_and_republishes_caption [OF Unmarshal_A c process_A]
    by (simp only: m) (simp add: q i)
qed

subsection \<open>The POST does not get through\<close>

text \<open>
  Claim C7. For every message, a transport failure of the HTTP POST to the captioning
  endpoint is recoverable: enrichment for that message is aborted and logged, no caption
  is produced, and the process does not crash.

  The error of \<open>client.Do\<close> is logged (line 216) and the function goes on to
  \<open>res.Body\<close> (line 221) with the \<open>nil\<close> response: the goroutine panics, and with it
  the process.
\<close>

theorem handleRedis_POST_failure_panics:
  "handleRedis env_down worker0 message_A =
     (Panicked,
      [Log (DebugGotMessage ''queue'' message_A), Log (DebugGotMetadata photo_A),
       HttpGet ''https://img.example/1.jpg'', HttpDo request_A,
       Log (ErrorRequest ''dial tcp: connection refused'')])"
proof -
  have u: "json_Unmarshal env_down (Payload message_A) zero_PhotoMetadata = (photo_A, None)"
    using Unmarshal_A by (simp add: env_down_def)
  have c: "Caption photo_A = []"
    by (simp add: photo_A_def)
  show ?thesis
    by (simp add: handleRedis_def u c process_down) (simp add: worker0_def)
qed

subsection \<open>Where the loop runs\<close>

text \<open>The loop returns only on a closed channel.\<close>

lemma range_ch_returns_closed:
  assumes "range_ch ch i t = Some y"
  shows "\<exists>j\<ge>i. ch j = None"
proof (rule range_ch.raw_induct [where P = "\<lambda>c k u z. \<exists>j\<ge>k. c j = None", OF _ assms])
  fix loop :: "chan \<Rightarrow> nat \<Rightarrow> event list \<Rightarrow> event list option"
  fix c k u z
  assume IH: "\<And>c k u z. loop c k u = Some z \<Longrightarrow> \<exists>j\<ge>k. c j = None"
  assume step: "(case c k of None \<Rightarrow> Some u
                 | Some message \<Rightarrow> loop c (Suc k) (u @ [Go message])) = Some z"
  show "\<exists>j\<ge>k. c j = None"
  proof (cases "c k")
    case None
    then show ?thesis by blast
  next
    case (Some m)
    with step have "loop c (Suc k) (u @ [Go m]) = Some z" by simp
    from IH [OF this] obtain j where "Suc k \<le> j" and "c j = None" by blast
    then show ?thesis using Suc_leD by blast
  qed
qed

lemma range_ch_open:
  assumes "\<And>j. ch j \<noteq> None"
  shows "range_ch ch i t = None"
proof (cases "range_ch ch i t")
  case None
  then show ?thesis .
next
  case (Some y)
  from range_ch_returns_closed [OF this] assms show ?thesis by blast
qed

text \<open>On a channel closed at its \<open>n\<close>-th receive the loop has started a goroutine for
  each of the \<open>n\<close> messages, in their order, when it returns.\<close>

lemma range_ch_closed:
  assumes "ch (i + n) = None" and "\<And>j. j < n \<Longrightarrow> ch (i + j) \<noteq> None"
  shows "range_ch ch i t = Some (t @ map Go (received ch i n))"
  using assms
proof (induction n arbitrary: i t)
  case 0
  then show ?case by (subst range_ch.simps) simp
next
  case (Suc n)
  from Suc.prems(2) [of 0] obtain m where m: "ch i = Some m" by auto
  have "range_ch ch (Suc i) (t @ [Go m]) = Some ((t @ [Go m]) @ map Go (received ch (Suc i) n))"
  proof (rule Suc.IH)
    show "ch (Suc i + n) = None" using Suc.prems(1) by simp
  next
    fix j assume "j < n"
    then show "ch (Suc i + j) \<noteq> None" using Suc.prems(2) [of "Suc j"] by simp
  qed
  then show ?case using m by (subst range_ch.simps) simp
qed

text \<open>\<open>main\<close> is \<open>NewWorker\<close>: \<open>Start\<close> adds no event, and is not reached when
  \<open>NewWorker\<close> does not return.\<close>

lemma main_is_NewWorker:
  "main e ch =
     (case NewWorker e ch of
        None \<Rightarrow> None
      | Some (Exited n, t) \<Rightarrow> Some (Exited n, t)
      | Some (Started worker, t) \<Rightarrow> Some (Started (), t))"
  by (simp add: main_def Start_def split: option.splits prod.splits startup.splits)

text \<open>
  Claim C10. \<open>Worker.Start\<close> performs no action at all: the subscribe-and-dispatch
  loop over inbound messages runs inside \<open>NewWorker\<close> (via \<open>setupRedis\<close>), so
  \<open>NewWorker\<close> does not return while the worker is consuming messages, and calling
  \<open>Start\<close> has no observable effect.

  \<open>Start\<close> returns with no event, for every worker. With an API key in the
  configuration, \<open>NewWorker\<close> is the loop over the channel, entered with the trace
  \<open>pre\<close> of the ping, the subscription to the configured channel and the wait for its
  confirmation, and it returns the worker \<open>w\<close> it made from the configuration. So
  \<open>NewWorker\<close> (and \<open>main\<close> with it) never returns on a channel that is never closed,
  and on a channel that is closed at its \<open>n\<close>-th receive it returns with the trace
  \<open>pre\<close> followed by the start of one goroutine for each of the \<open>n\<close> messages, in
  their order; \<open>main\<close> adds nothing to that trace. The subscription is in \<open>pre\<close>, and
  no goroutine is started there.
\<close>

theorem Start_does_nothing_NewWorker_runs_the_loop:
  assumes "captionApi_key (config_of e) \<noteq> []"
  shows "Start worker = (Returned (), [])
         \<and> (let channel = redis_channel (config_of e);
                 w = \<lparr>redis = \<lparr>Addr = redis_addr (config_of e),
                                   Password = redis_passwd (config_of e),
                                   DB = redis_db (config_of e)\<rparr>,
                      config = config_of e\<rparr>;
                 pre = [RedisPing] @
                       (case redis_Ping e of (pong, err) \<Rightarrow>
                          (case err of Some er \<Rightarrow> [Log (ErrorPing er)]
                           | None \<Rightarrow> [Log (DebugPong pong)])) @
                       [RedisSubscribe channel, RedisReceiveTimeout 10] @
                       (case redis_ReceiveTimeout e of (subscr, err) \<Rightarrow>
                          (case err of Some er \<Rightarrow> [Log (ErrorSubscribe channel er)]
                           | None \<Rightarrow> []) @
                          [Log (DebugSubscribed channel subscr)])
             in NewWorker e ch =
                  (case range_ch ch 0 pre of
                     None \<Rightarrow> None
                   | Some t \<Rightarrow> Some (Started w, t))
                \<and> RedisSubscribe channel \<in> set pre
                \<and> filter is_Go pre = []
                \<and> ((\<forall>i. ch i \<noteq> None) \<longrightarrow> NewWorker e ch = None \<and> main e ch = None)
                \<and> (ch n = None \<and> (\<forall>i<n. ch i \<noteq> None) \<longrightarrow>
                     NewWorker e ch = Some (Started w, pre @ map Go (received ch 0 n))
                     \<and> main e ch = Some (Started (), pre @ map Go (received ch 0 n))
                     \<and> filter is_Go (pre @ map Go (received ch 0 n)) =
                         map Go (received ch 0 n)))"
proof -
  let ?channel = "redis_channel (config_of e)"
  let ?w = "\<lparr>redis = \<lparr>Addr = redis_addr (config_of e), Password = redis_passwd (config_of e),
                         DB = redis_db (config_of e)\<rparr>,
              config = config_of e\<rparr>"
  let ?pre = "[RedisPing] @
              (case redis_Ping e of (pong, err) \<Rightarrow>
                 (case err of Some er \<Rightarrow> [Log (ErrorPing er)] | None \<Rightarrow> [Log (DebugPong pong)])) @
              [RedisSubscribe ?channel, RedisReceiveTimeout 10] @
              (case redis_ReceiveTimeout e of (subscr, err) \<Rightarrow>
                 (case err of Some er \<Rightarrow> [Log (ErrorSubscribe ?channel er)] | None \<Rightarrow> []) @
                 [Log (DebugSubscribed ?channel subscr)])"
  have s: "setupRedis e ?w ch = range_ch ch 0 ?pre"
    by (simp add: setupRedis_def Let_def)
  have nw: "NewWorker e ch =
      (case range_ch ch 0 ?pre of None \<Rightarrow> None | Some t \<Rightarrow> Some (Started ?w, t))"
    using assms by (simp only: NewWorker_def Let_def s) simp
  have a: "Start worker = (Returned (), [])"
    by (simp add: Start_def)
  have sub: "RedisSubscribe ?channel \<in> set ?pre"
    by simp
  have g: "filter is_Go ?pre = []"
    by (simp split: prod.splits option.splits)
  have b: "NewWorker e ch = None \<and> main e ch = None" if "\<forall>i. ch i \<noteq> None"
  proof -
    have "range_ch ch 0 ?pre = None"
      using that by (intro range_ch_open) simp
    then show ?thesis
      by (simp only: nw main_is_NewWorker) simp
  qed
  have c: "NewWorker e ch = Some (Started ?w, ?pre @ map Go (received ch 0 n))
           \<and> main e ch = Some (Started (), ?pre @ map Go (received ch 0 n))
           \<and> filter is_Go (?pre @ map Go (received ch 0 n)) = map Go (received ch 0 n)"
    if "ch n = None \<and> (\<forall>i<n. ch i \<noteq> None)"
  proof -
    have "range_ch ch 0 ?pre = Some (?pre @ map Go (received ch 0 n))"
      using that by (intro range_ch_closed) simp_all
    then have r: "NewWorker e ch = Some (Started ?w, ?pre @ map Go (received ch 0 n))"
      by (simp only: nw) simp
    have "filter is_Go (map Go (received ch 0 n)) = map Go (received ch 0 n)"
      by (simp add: filter_map comp_def)
    then have f: "filter is_Go (?pre @ map Go (received ch 0 n)) = map Go (received ch 0 n)"
      using g by (simp only: filter_append) simp
    have m: "main e ch = Some (Started (), ?pre @ map Go (received ch 0 n))"
      by (simp only: main_is_NewWorker r) simp
    from r m f show ?thesis by blast
  qed
  show ?thesis
    unfolding Let_def using a nw sub g b c by blast
qed

theorem Start_does_nothing_NewWorker_runs_the_loop_witness:
  "Start worker0 = (Returned (), [])
   \<and> NewWorker env_A chan_open = None \<and> main env_A chan_open = None
   \<and> NewWorker env_A chan_two =
       Some (Started worker0,
             [RedisPing, Log (DebugPong ''PONG''), RedisSubscribe ''queue'',
              RedisReceiveTimeout 10, Log (DebugSubscribed ''queue'' ''subscribe: queue''),
              Go message_A, Go message_B])
   \<and> main env_A chan_two =
       Some (Started (),
             [RedisPing, Log (DebugPong ''PONG''), RedisSubscribe ''queue'',
              RedisReceiveTimeout 10, Log (DebugSubscribed ''queue'' ''subscribe: queue''),
              Go message_A, Go message_B])"
proof -
  have k: "captionApi_key (config_of env_A) \<noteq> []"
    by (simp add: config_of_def GetString_def env_A_def)
  have o: "\<forall>i. chan_open i \<noteq> None"
    by (simp add: chan_open_def)
  have t: "chan_two 2 = None \<and> (\<forall>i<2. chan_two i \<noteq> None)"
    by (simp add: chan_two_def)
  have r: "received chan_two 0 2 = [message_A, message_B]"
    by (simp add: chan_two_def numeral_2_eq_2)
  have c: "config_of env_A = config worker0"
    by (simp add: config_of_def GetString_def GetInt_def env_A_def worker0_def
                  envWorkerCaptionApiKey_def envWorkerCaptionApiUrl_def envWorkerRedisAddr_def
                  envWorkerRedisChannel_def envWorkerRedisDb_def envWorkerRedisPasswd_def)
  have w: "\<lparr>redis = \<lparr>Addr = redis_addr (config worker0), Password = redis_passwd (config worker0),
                        DB = redis_db (config worker0)\<rparr>,
             config = config worker0\<rparr> = worker0"
    by (simp add: worker0_def)
  have q: "redis_channel (config worker0) = ''queue''"
    by (simp add: worker0_def)
  have p: "redis_Ping env_A = (''PONG'', None)"
    and v: "redis_ReceiveTimeout env_A = (''subscribe: queue'', None)"
    by (simp_all add: env_A_def)
  note open_run = Start_does_nothing_NewWorker_runs_the_loop [OF k, of worker0 chan_open 0,
    unfolded Let_def]
  note two_run = Start_does_nothing_NewWorker_runs_the_loop [OF k, of worker0 chan_two 2,
    unfolded Let_def]
  have a: "Start worker0 = (Returned (), [])"
    using open_run [THEN conjunct1] .
  have b: "NewWorker env_A chan_open = None \<and> main env_A chan_open = None"
    using open_run [THEN conjunct2, THEN conjunct2, THEN conjunct2, THEN conjunct2,
                    THEN conjunct1, THEN mp, OF o] .
  have d: "NewWorker env_A chan_two =
       Some (Started worker0,
             [RedisPing, Log (DebugPong ''PONG''), RedisSubscribe ''queue'',
              RedisReceiveTimeout 10, Log (DebugSubscribed ''queue'' ''subscribe: queue''),
              Go message_A, Go message_B])
     \<and> main env_A chan_two =
       Some (Started (),
             [RedisPing, Log (DebugPong ''PONG''), RedisSubscribe ''queue'',
              RedisReceiveTimeout 10, Log (DebugSubscribed ''queue'' ''subscribe: queue''),
              Go message_A, Go message_B])"
    using two_run [THEN conjunct2, THEN conjunct2, THEN conjunct2, THEN conjunct2,
                   THEN conjunct2, THEN mp, OF t]
    by (simp add: r c w q p v)
  from a b d show ?thesis by simp
qed

end
